theory Spec2Isabelle
  imports Complex_Main
begin

section \<open>Python values\<close>

text \<open>
  The values that \<^verbatim>\<open>api_response.json()\<close> can produce, and the values stored in the
  request parameter dictionary. A Python float is a finite number, an infinity or NaN
  (the parser accepts all of them); \<open>Finite 0\<close> stands for both zeros, which are the
  only falsy floats. A dict is given by its items; \<open>map_of\<close> is the lookup, so the
  first item with a key is the one the dict holds.
\<close>

datatype pyfloat = Finite rat | PosInf | NegInf | NaN

datatype pyval =
    PyNone
  | PyBool bool
  | PyInt int
  | PyFloat pyfloat
  | PyStr string
  | PyList "pyval list"
  | PyDict "(string \<times> pyval) list"

text \<open>Truth value testing, as \<^verbatim>\<open>if x:\<close> and \<^verbatim>\<open>x or y\<close> do it.\<close>

fun truthy :: "pyval \<Rightarrow> bool" where
  "truthy PyNone = False"
| "truthy (PyBool b) = b"
| "truthy (PyInt n) = (n \<noteq> 0)"
| "truthy (PyFloat x) = (x \<noteq> Finite 0)"
| "truthy (PyStr s) = (s \<noteq> [])"
| "truthy (PyList xs) = (xs \<noteq> [])"
| "truthy (PyDict kvs) = (kvs \<noteq> [])"

text \<open>An argument of type \<^verbatim>\<open>Optional[str]\<close> or \<^verbatim>\<open>Optional[int]\<close> as a Python value.\<close>

definition opt_str :: "string option \<Rightarrow> pyval" where
  "opt_str x = (case x of None \<Rightarrow> PyNone | Some s \<Rightarrow> PyStr s)"

definition opt_int :: "int option \<Rightarrow> pyval" where
  "opt_int x = (case x of None \<Rightarrow> PyNone | Some n \<Rightarrow> PyInt n)"

text \<open>
  The only exception that the code after the \<^verbatim>\<open>try\<close> block can raise: the attribute
  \<^verbatim>\<open>get\<close> exists on a dict and on no other value that a JSON body parses to.
\<close>

datatype py_exception = AttributeError

definition dict_get :: "(string \<times> pyval) list \<Rightarrow> string \<Rightarrow> pyval \<Rightarrow> pyval" where
  "dict_get d k dflt = (case map_of d k of None \<Rightarrow> dflt | Some v \<Rightarrow> v)"

fun py_get :: "pyval \<Rightarrow> string \<Rightarrow> pyval \<Rightarrow> py_exception + pyval" where
  "py_get (PyDict d) k dflt = Inr (dict_get d k dflt)"
| "py_get _ k dflt = Inl AttributeError"

section \<open>Data model\<close>

record NASAAPOD =
  apod_title :: pyval
  explanation :: pyval
  date :: pyval
  multimedia_link :: pyval
  hd_multimedia_link :: pyval
  video_thumbnail_url :: pyval
  copyright_person_name :: pyval

record NASAAPODResponse =
  nasa_apods :: "NASAAPOD list"

record ErrorDetails =
  status_code :: int
  message :: pyval

text \<open>The return type \<^verbatim>\<open>Union[NASAAPODResponse, ErrorDetails]\<close>.\<close>

datatype tool_result = Apods NASAAPODResponse | Error ErrorDetails

text \<open>The members of \<^verbatim>\<open>http.HTTPStatus\<close> that the code names.\<close>

definition HTTPStatus_OK :: int where
  "HTTPStatus_OK = 200"

definition HTTPStatus_INTERNAL_SERVER_ERROR :: int where
  "HTTPStatus_INTERNAL_SERVER_ERROR = 500"

text \<open>
  \<^verbatim>\<open>NASA_API_KEY = os.getenv("NASA_API_KEY") or "DEMO_KEY"\<close>, as a function of the
  variable's value in the environment.
\<close>

definition NASA_API_KEY :: "string option \<Rightarrow> string" where
  "NASA_API_KEY env = (case env of None \<Rightarrow> ''DEMO_KEY'' | Some k \<Rightarrow> if k = [] then ''DEMO_KEY'' else k)"

section \<open>The request\<close>

text \<open>
  What the two calls inside the \<^verbatim>\<open>try\<close> block do: \<^verbatim>\<open>requests.get\<close> raises (with the
  text of the exception), or it returns a response with a status code whose \<^verbatim>\<open>json()\<close>
  raises, or it returns a response with a status code and a parsed body.
\<close>

datatype http_outcome =
    GetRaised string
  | JsonRaised int string
  | Responded int pyval

type_synonym params = "string \<rightharpoonup> pyval"

text \<open>Lines 69 to 77: the parameter dictionary handed to \<^verbatim>\<open>requests.get\<close>.\<close>

definition get_nasa_apod_params ::
  "string \<Rightarrow> string option \<Rightarrow> string option \<Rightarrow> string option \<Rightarrow> int option \<Rightarrow> bool \<Rightarrow> params" where
  "get_nasa_apod_params api_key apod_date start_date end_date count thumbs =
     (let params = [''api_key'' \<mapsto> PyStr api_key, ''thumbs'' \<mapsto> PyBool thumbs] in
      if truthy (opt_int count) then params(''count'' \<mapsto> opt_int count)
      else if truthy (opt_str apod_date) then params(''date'' \<mapsto> opt_str apod_date)
      else if truthy (opt_str start_date) then
        (let params = params(''start_date'' \<mapsto> opt_str start_date) in
         if truthy (opt_str end_date) then params(''end_date'' \<mapsto> opt_str end_date)
         else params)
      else params)"

section \<open>The response\<close>

text \<open>
  Line 91:
  \<^verbatim>\<open>json_response.get("msg") or json_response.get("error", {}).get("message", "Unknown error")\<close>
\<close>

definition error_msg :: "pyval \<Rightarrow> py_exception + pyval" where
  "error_msg json_response =
     (case py_get json_response ''msg'' PyNone of
        Inl x \<Rightarrow> Inl x
      | Inr msg \<Rightarrow>
          if truthy msg then Inr msg
          else (case py_get json_response ''error'' (PyDict []) of
                  Inl x \<Rightarrow> Inl x
                | Inr err \<Rightarrow> py_get err ''message'' (PyStr ''Unknown error'')))"

text \<open>Line 95.\<close>

definition raw_data_list :: "pyval \<Rightarrow> pyval list" where
  "raw_data_list json_response =
     (case json_response of PyList xs \<Rightarrow> xs | _ \<Rightarrow> [json_response])"

text \<open>
  Lines 99 to 109, the body of the loop. Its first statement calls \<^verbatim>\<open>item.get\<close>, which
  raises unless the item is a dict; on a dict none of the calls raises.
\<close>

fun nasa_apod_of :: "pyval \<Rightarrow> py_exception + NASAAPOD" where
  "nasa_apod_of (PyDict item) =
     (let m_type = dict_get item ''media_type'' PyNone in
      Inr \<lparr> apod_title = dict_get item ''title'' (PyStr ''Untitled''),
            explanation = dict_get item ''explanation'' (PyStr ''''),
            date = dict_get item ''date'' (PyStr ''''),
            multimedia_link = dict_get item ''url'' (PyStr ''''),
            hd_multimedia_link =
              (if m_type = PyStr ''image'' then dict_get item ''hdurl'' PyNone else PyNone),
            video_thumbnail_url =
              (if m_type = PyStr ''video'' then dict_get item ''thumbnail_url'' PyNone
               else PyNone),
            copyright_person_name = dict_get item ''copyright'' PyNone \<rparr>)"
| "nasa_apod_of _ = Inl AttributeError"

text \<open>Lines 97 to 110: the loop, appending to \<^verbatim>\<open>nasa_apods\<close> (here \<open>apods\<close>) until an item
  raises.\<close>

fun nasa_apods_loop :: "pyval list \<Rightarrow> NASAAPOD list \<Rightarrow> py_exception + NASAAPOD list" where
  "nasa_apods_loop [] apods = Inr apods"
| "nasa_apods_loop (item # rest) apods =
     (case nasa_apod_of item of
        Inl x \<Rightarrow> Inl x
      | Inr entry \<Rightarrow> nasa_apods_loop rest (apods @ [entry]))"

text \<open>Lines 84 to 87: the value that the \<^verbatim>\<open>except\<close> branch returns.\<close>

definition connect_error :: "string \<Rightarrow> ErrorDetails" where
  "connect_error e =
     \<lparr> status_code = HTTPStatus_INTERNAL_SERVER_ERROR,
       message = PyStr (''Failed to connect or parse JSON: '' @ e) \<rparr>"

text \<open>
  The function. \<open>http_get\<close> is what the network does with the request, \<open>code\<close> is
  \<^verbatim>\<open>api_response.status_code\<close>; \<open>Inl\<close> is an exception that leaves the function,
  \<open>Inr\<close> a returned value.
\<close>

definition get_nasa_apod ::
  "(params \<Rightarrow> http_outcome) \<Rightarrow> string \<Rightarrow> string option \<Rightarrow> string option \<Rightarrow> string option \<Rightarrow>
   int option \<Rightarrow> bool \<Rightarrow> py_exception + tool_result" where
  "get_nasa_apod http_get api_key apod_date start_date end_date count thumbs =
     (case http_get (get_nasa_apod_params api_key apod_date start_date end_date count thumbs) of
        GetRaised e \<Rightarrow> Inr (Error (connect_error e))
      | JsonRaised code e \<Rightarrow> Inr (Error (connect_error e))
      | Responded code json_response \<Rightarrow>
          if code \<noteq> HTTPStatus_OK then
            (case error_msg json_response of
               Inl x \<Rightarrow> Inl x
             | Inr m \<Rightarrow> Inr (Error \<lparr> status_code = code, message = m \<rparr>))
          else
            (case nasa_apods_loop (raw_data_list json_response) [] of
               Inl x \<Rightarrow> Inl x
             | Inr entries \<Rightarrow> Inr (Apods \<lparr> nasa_apods = entries \<rparr>)))"

text \<open>
  The defaults of the signature: \<^verbatim>\<open>api_key: str = NASA_API_KEY\<close> and
  \<^verbatim>\<open>thumbs: bool = False\<close>, for a caller that leaves the argument out (\<open>None\<close>).
\<close>

definition arg_api_key :: "string option \<Rightarrow> string option \<Rightarrow> string" where
  "arg_api_key env given = (case given of None \<Rightarrow> NASA_API_KEY env | Some k \<Rightarrow> k)"

definition arg_thumbs :: "bool option \<Rightarrow> bool" where
  "arg_thumbs given = (case given of None \<Rightarrow> False | Some b \<Rightarrow> b)"

section \<open>Auxiliary facts\<close>

lemma truthy_opt_str: "truthy (opt_str x) \<longleftrightarrow> x \<noteq> None \<and> x \<noteq> Some []"
  by (cases x) (simp_all add: opt_str_def)

lemma truthy_opt_int: "truthy (opt_int x) \<longleftrightarrow> x \<noteq> None \<and> x \<noteq> Some 0"
  by (cases x) (simp_all add: opt_int_def)

lemma dict_get_not_PyNone: "dict_get d k PyNone \<noteq> PyNone \<Longrightarrow> \<exists>v. map_of d k = Some v"
  by (cases "map_of d k") (simp_all add: dict_get_def)

lemma dict_get_PyStr: "dict_get d k PyNone = PyStr s \<Longrightarrow> map_of d k = Some (PyStr s)"
  by (cases "map_of d k") (simp_all add: dict_get_def)

lemma nasa_apod_of_links:
  assumes "nasa_apod_of (PyDict d) = Inr entry"
  shows "hd_multimedia_link entry =
           (if dict_get d ''media_type'' PyNone = PyStr ''image''
            then dict_get d ''hdurl'' PyNone else PyNone)"
    and "video_thumbnail_url entry =
           (if dict_get d ''media_type'' PyNone = PyStr ''video''
            then dict_get d ''thumbnail_url'' PyNone else PyNone)"
  using assms by (auto simp: Let_def)

lemma connect_error_neq:
  "code \<noteq> HTTPStatus_INTERNAL_SERVER_ERROR \<Longrightarrow>
     \<lparr> status_code = code, message = m \<rparr> \<noteq> connect_error e"
  by (auto simp: connect_error_def)

text \<open>
  The loop only appends: when it ends without an exception, the list it returns is the
  list it started from followed by one entry for each item, in the order of the items.
\<close>

lemma nasa_apods_loop_append:
  "nasa_apods_loop items apods = Inr entries \<Longrightarrow>
     \<exists>new. entries = apods @ new \<and> length new = length items \<and>
           (\<forall>i < length items. nasa_apod_of (items ! i) = Inr (new ! i))"
proof (induction items arbitrary: apods entries)
  case Nil
  then show ?case by simp
next
  case (Cons item rest)
  from Cons.prems obtain entry where
    entry: "nasa_apod_of item = Inr entry" and
    rest: "nasa_apods_loop rest (apods @ [entry]) = Inr entries"
    by (auto split: sum.splits)
  from Cons.IH [OF rest] obtain new where
    new: "entries = (apods @ [entry]) @ new" "length new = length rest"
      "\<forall>i < length rest. nasa_apod_of (rest ! i) = Inr (new ! i)"
    by blast
  have "\<forall>i < length (item # rest). nasa_apod_of ((item # rest) ! i) = Inr ((entry # new) ! i)"
    using entry new(3) by (auto simp: nth_Cons split: nat.splits)
  with new(1,2) show ?case
    by (intro exI [of _ "entry # new"]) simp
qed

text \<open>On a list of dicts the loop ends without an exception.\<close>

lemma nasa_apods_loop_dicts:
  "list_all (\<lambda>item. \<exists>d. item = PyDict d) items \<Longrightarrow>
     \<exists>entries. nasa_apods_loop items apods = Inr entries"
proof (induction items arbitrary: apods)
  case Nil
  then show ?case by simp
next
  case (Cons item rest)
  then obtain d where "item = PyDict d" by auto
  then obtain entry where "nasa_apod_of item = Inr entry" by (simp add: Let_def)
  with Cons show ?case by simp
qed

lemma nasa_apods_loop_map_PyDict:
  "\<exists>new. nasa_apods_loop (map PyDict ds) apods = Inr (apods @ new) \<and> length new = length ds \<and>
         (\<forall>i < length ds. nasa_apod_of (PyDict (ds ! i)) = Inr (new ! i))"
proof -
  have "list_all (\<lambda>item. \<exists>d. item = PyDict d) (map PyDict ds)"
    by (simp add: list_all_iff)
  then obtain entries where e: "nasa_apods_loop (map PyDict ds) apods = Inr entries"
    using nasa_apods_loop_dicts by blast
  from nasa_apods_loop_append [OF e] e show ?thesis
    by auto
qed

text \<open>
  Every batch that the function returns comes from a 200 response, and its entries are
  the mapped items of the normalised body, one for one.
\<close>

lemma get_nasa_apod_entries:
  assumes "get_nasa_apod http_get api_key apod_date start_date end_date count thumbs
             = Inr (Apods r)"
  shows "\<exists>body. http_get (get_nasa_apod_params api_key apod_date start_date end_date count thumbs)
             = Responded HTTPStatus_OK body
           \<and> length (nasa_apods r) = length (raw_data_list body)
           \<and> (\<forall>i < length (raw_data_list body).
                 nasa_apod_of (raw_data_list body ! i) = Inr (nasa_apods r ! i))"
proof (cases "http_get (get_nasa_apod_params api_key apod_date start_date end_date count thumbs)")
  case (GetRaised e)
  with assms show ?thesis by (simp add: get_nasa_apod_def)
next
  case (JsonRaised code e)
  with assms show ?thesis by (simp add: get_nasa_apod_def)
next
  case (Responded code body)
  with assms have code: "code = HTTPStatus_OK"
    by (auto simp: get_nasa_apod_def split: if_splits sum.splits)
  with assms Responded have "nasa_apods_loop (raw_data_list body) [] = Inr (nasa_apods r)"
    by (auto simp: get_nasa_apod_def split: sum.splits)
  from nasa_apods_loop_append [OF this] Responded code show ?thesis
    by auto
qed

section \<open>Request parameters\<close>

text \<open>
  C1 (as amended). When \<open>count\<close> is set to a non-zero integer, the parameter dictionary
  contains the key \<open>count\<close> and none of \<open>date\<close>, \<open>start_date\<close>, \<open>end_date\<close>, whatever
  \<open>apod_date\<close>, \<open>start_date\<close> and \<open>end_date\<close> are. For all arguments, the dictionary
  never holds two conflicting mode keys: not \<open>count\<close> with \<open>date\<close>, not \<open>count\<close> with
  \<open>start_date\<close> or \<open>end_date\<close>, not \<open>date\<close> with \<open>start_date\<close> or \<open>end_date\<close>.
\<close>

theorem params_count_excludes_dates:
  fixes api_key apod_date start_date end_date count thumbs
  defines "P \<equiv> get_nasa_apod_params api_key apod_date start_date end_date count thumbs"
  shows "(count \<noteq> None \<and> count \<noteq> Some 0 \<longrightarrow>
            ''count'' \<in> dom P \<and> ''date'' \<notin> dom P
            \<and> ''start_date'' \<notin> dom P \<and> ''end_date'' \<notin> dom P)
       \<and> \<not> (''count'' \<in> dom P \<and> ''date'' \<in> dom P)
       \<and> \<not> (''count'' \<in> dom P \<and> (''start_date'' \<in> dom P \<or> ''end_date'' \<in> dom P))
       \<and> \<not> (''date'' \<in> dom P \<and> (''start_date'' \<in> dom P \<or> ''end_date'' \<in> dom P))"
  unfolding P_def get_nasa_apod_params_def Let_def truthy_opt_int truthy_opt_str
  by simp

theorem params_count_excludes_dates_witness:
  "Some (3::int) \<noteq> None \<and> Some (3::int) \<noteq> Some 0
   \<and> ''count'' \<in> dom (get_nasa_apod_params ''DEMO_KEY'' (Some ''2026-01-18'')
                        (Some ''2026-01-01'') (Some ''2026-01-05'') (Some 3) True)
   \<and> ''date'' \<notin> dom (get_nasa_apod_params ''DEMO_KEY'' (Some ''2026-01-18'')
                        (Some ''2026-01-01'') (Some ''2026-01-05'') (Some 3) True)
   \<and> ''start_date'' \<notin> dom (get_nasa_apod_params ''DEMO_KEY'' (Some ''2026-01-18'')
                        (Some ''2026-01-01'') (Some ''2026-01-05'') (Some 3) True)
   \<and> ''end_date'' \<notin> dom (get_nasa_apod_params ''DEMO_KEY'' (Some ''2026-01-18'')
                        (Some ''2026-01-01'') (Some ''2026-01-05'') (Some 3) True)"
  using params_count_excludes_dates [where count = "Some 3" and api_key = "''DEMO_KEY''"
      and apod_date = "Some ''2026-01-18''" and start_date = "Some ''2026-01-01''"
      and end_date = "Some ''2026-01-05''" and thumbs = True]
  by simp

text \<open>
  C1 as stated fails for \<open>count = 0\<close>, which is set but falsy: with a single date beside
  it, the dictionary has no key \<open>count\<close> and has the key \<open>date\<close>.
\<close>

theorem params_count_zero_counterexample:
  "get_nasa_apod_params ''DEMO_KEY'' (Some ''2026-01-18'') None None (Some 0) False ''count''
     = None
   \<and> get_nasa_apod_params ''DEMO_KEY'' (Some ''2026-01-18'') None None (Some 0) False ''date''
     = Some (PyStr ''2026-01-18'')"
  by (simp add: get_nasa_apod_params_def opt_int_def opt_str_def)

text \<open>
  C7 (as amended). With no count and no single date: if \<open>start_date\<close> is set to a
  non-empty string, the dictionary contains \<open>start_date\<close>, and it contains \<open>end_date\<close>
  exactly when \<open>end_date\<close> is set to a non-empty string too; if \<open>start_date\<close> is not set
  or is empty, the dictionary contains none of \<open>end_date\<close>, \<open>start_date\<close>, \<open>date\<close>,
  whatever \<open>end_date\<close> is.
\<close>

theorem params_date_range:
  fixes api_key start_date end_date thumbs
  defines "P \<equiv> get_nasa_apod_params api_key None start_date end_date None thumbs"
  shows "(start_date \<noteq> None \<and> start_date \<noteq> Some [] \<longrightarrow>
            ''start_date'' \<in> dom P
            \<and> (''end_date'' \<in> dom P \<longleftrightarrow> end_date \<noteq> None \<and> end_date \<noteq> Some []))
       \<and> (start_date = None \<or> start_date = Some [] \<longrightarrow>
            ''end_date'' \<notin> dom P \<and> ''start_date'' \<notin> dom P \<and> ''date'' \<notin> dom P)"
  unfolding P_def get_nasa_apod_params_def Let_def truthy_opt_int truthy_opt_str
  by simp

theorem params_date_range_witness:
  "''start_date'' \<in> dom (get_nasa_apod_params ''DEMO_KEY'' None (Some ''2026-01-01'') None None
                           False)
   \<and> ''end_date'' \<notin> dom (get_nasa_apod_params ''DEMO_KEY'' None (Some ''2026-01-01'') None None
                           False)
   \<and> ''end_date'' \<in> dom (get_nasa_apod_params ''DEMO_KEY'' None (Some ''2026-01-01'')
                           (Some ''2026-01-05'') None False)
   \<and> ''end_date'' \<notin> dom (get_nasa_apod_params ''DEMO_KEY'' None None (Some ''2026-01-05'') None
                           False)"
  using
    params_date_range [where start_date = "Some ''2026-01-01''" and end_date = None
      and api_key = "''DEMO_KEY''" and thumbs = False]
    params_date_range [where start_date = "Some ''2026-01-01''"
      and end_date = "Some ''2026-01-05''" and api_key = "''DEMO_KEY''" and thumbs = False]
    params_date_range [where start_date = None and end_date = "Some ''2026-01-05''"
      and api_key = "''DEMO_KEY''" and thumbs = False]
  by simp

text \<open>
  C7 as stated fails for a start date that is set to the empty string: the dictionary
  has no key \<open>start_date\<close>.
\<close>

theorem params_empty_start_date_counterexample:
  "get_nasa_apod_params ''DEMO_KEY'' None (Some '''') None None False ''start_date'' = None"
  by (simp add: get_nasa_apod_params_def opt_int_def opt_str_def)

text \<open>
  C8. In every mode the parameter dictionary holds \<open>api_key\<close> and \<open>thumbs\<close> with the
  values of the arguments; for a caller that leaves both out these are the defaults,
  \<open>NASA_API_KEY\<close> and \<open>False\<close>.
\<close>

theorem params_api_key_thumbs:
  "get_nasa_apod_params api_key apod_date start_date end_date count thumbs ''api_key''
     = Some (PyStr api_key)
   \<and> get_nasa_apod_params api_key apod_date start_date end_date count thumbs ''thumbs''
     = Some (PyBool thumbs)
   \<and> get_nasa_apod_params (arg_api_key env None) apod_date start_date end_date count
       (arg_thumbs None) ''api_key''
     = Some (PyStr (NASA_API_KEY env))
   \<and> get_nasa_apod_params (arg_api_key env None) apod_date start_date end_date count
       (arg_thumbs None) ''thumbs''
     = Some (PyBool False)"
  by (simp add: get_nasa_apod_params_def Let_def arg_api_key_def arg_thumbs_def)

theorem params_api_key_thumbs_witness:
  "get_nasa_apod_params ''k1'' None None None (Some 5) True ''api_key'' = Some (PyStr ''k1'')
   \<and> get_nasa_apod_params ''k1'' None None None (Some 5) True ''thumbs'' = Some (PyBool True)
   \<and> get_nasa_apod_params (arg_api_key None None) None (Some ''2026-01-01'') None None
       (arg_thumbs None) ''api_key''
     = Some (PyStr ''DEMO_KEY'')"
  using
    params_api_key_thumbs [where api_key = "''k1''" and apod_date = None and start_date = None
      and end_date = None and count = "Some 5" and thumbs = True and env = None]
    params_api_key_thumbs [where api_key = "''k1''" and apod_date = None
      and start_date = "Some ''2026-01-01''" and end_date = None and count = None
      and thumbs = True and env = None]
  by (simp add: NASA_API_KEY_def)

section \<open>Failures\<close>

text \<open>
  C6. When \<^verbatim>\<open>requests.get\<close> raises, or the body of the response does not parse as JSON,
  the function returns an \<open>ErrorDetails\<close> whose status code is the fixed
  \<open>INTERNAL_SERVER_ERROR\<close> and whose message is a fixed prefix followed by the text of
  the exception, so the message contains that text.
\<close>

theorem connect_failure_details:
  assumes "http_get (get_nasa_apod_params api_key apod_date start_date end_date count thumbs)
             = GetRaised e
         \<or> http_get (get_nasa_apod_params api_key apod_date start_date end_date count thumbs)
             = JsonRaised code e"
  shows "get_nasa_apod http_get api_key apod_date start_date end_date count thumbs
           = Inr (Error \<lparr> status_code = HTTPStatus_INTERNAL_SERVER_ERROR,
                           message = PyStr (''Failed to connect or parse JSON: '' @ e) \<rparr>)"
  using assms by (auto simp: get_nasa_apod_def connect_error_def)

theorem connect_failure_details_witness:
  "get_nasa_apod (\<lambda>_. GetRaised ''timed out'') ''DEMO_KEY'' None None None None False
     = Inr (Error \<lparr> status_code = 500,
                     message = PyStr ''Failed to connect or parse JSON: timed out'' \<rparr>)
   \<and> get_nasa_apod (\<lambda>_. JsonRaised 200 ''Expecting value'') ''DEMO_KEY'' None None None None False
     = Inr (Error \<lparr> status_code = 500,
                     message = PyStr ''Failed to connect or parse JSON: Expecting value'' \<rparr>)"
  using
    connect_failure_details [where http_get = "\<lambda>_. GetRaised ''timed out''" and e = "''timed out''"
      and code = 0 and api_key = "''DEMO_KEY''" and apod_date = None and start_date = None
      and end_date = None and count = None and thumbs = False]
    connect_failure_details [where http_get = "\<lambda>_. JsonRaised 200 ''Expecting value''"
      and e = "''Expecting value''" and code = 200 and api_key = "''DEMO_KEY''"
      and apod_date = None and start_date = None and end_date = None and count = None
      and thumbs = False]
  by (simp add: HTTPStatus_INTERNAL_SERVER_ERROR_def)

text \<open>
  C10. The status code of every transport or parse failure is exactly 500. A response
  whose own status is not 500 never yields the result of such a failure, so the two are
  told apart by the status code; a response whose status is 500 yields an \<open>ErrorDetails\<close>
  with the same status code as a failure whenever the function returns, and with a
  suitable \<open>msg\<close> field yields the very same \<open>ErrorDetails\<close>.
\<close>

theorem internal_error_sentinel:
  fixes http_get api_key apod_date start_date end_date count thumbs
  defines "P \<equiv> get_nasa_apod_params api_key apod_date start_date end_date count thumbs"
  defines "result \<equiv> get_nasa_apod http_get api_key apod_date start_date end_date count thumbs"
  shows "(\<forall>code e. http_get P = GetRaised e \<or> http_get P = JsonRaised code e \<longrightarrow>
            result = Inr (Error (connect_error e)) \<and> status_code (connect_error e) = 500)
       \<and> (\<forall>code body e. http_get P = Responded code body \<and> code \<noteq> 500 \<longrightarrow>
            result \<noteq> Inr (Error (connect_error e)))
       \<and> (\<forall>body r. http_get P = Responded 500 body \<and> result = Inr r \<longrightarrow>
            (\<exists>m. r = Error \<lparr> status_code = 500, message = m \<rparr>))
       \<and> (\<forall>e. http_get P
                 = Responded 500
                     (PyDict [(''msg'', PyStr (''Failed to connect or parse JSON: '' @ e))]) \<longrightarrow>
            result = Inr (Error (connect_error e)))"
proof (intro conjI allI impI)
  fix code e
  assume "http_get P = GetRaised e \<or> http_get P = JsonRaised code e"
  then show "result = Inr (Error (connect_error e))"
    unfolding P_def result_def by (auto simp: get_nasa_apod_def)
  show "status_code (connect_error e) = 500"
    by (simp add: connect_error_def HTTPStatus_INTERNAL_SERVER_ERROR_def)
next
  fix code body e
  assume a: "http_get P = Responded code body \<and> code \<noteq> 500"
  then have "code \<noteq> HTTPStatus_INTERNAL_SERVER_ERROR"
    by (simp add: HTTPStatus_INTERNAL_SERVER_ERROR_def)
  from connect_error_neq [OF this] a show "result \<noteq> Inr (Error (connect_error e))"
    unfolding P_def result_def by (auto simp: get_nasa_apod_def split: sum.splits)
next
  fix body r
  assume "http_get P = Responded 500 body \<and> result = Inr r"
  then show "\<exists>m. r = Error \<lparr> status_code = 500, message = m \<rparr>"
    unfolding P_def result_def
    by (auto simp: get_nasa_apod_def HTTPStatus_OK_def split: sum.splits)
next
  fix e
  assume "http_get P
            = Responded 500 (PyDict [(''msg'', PyStr (''Failed to connect or parse JSON: '' @ e))])"
  then show "result = Inr (Error (connect_error e))"
    unfolding P_def result_def
    by (simp add: get_nasa_apod_def error_msg_def dict_get_def connect_error_def
        HTTPStatus_OK_def HTTPStatus_INTERNAL_SERVER_ERROR_def)
qed

theorem internal_error_sentinel_witness:
  "get_nasa_apod (\<lambda>_. GetRaised ''timed out'') ''DEMO_KEY'' None None None None False
     = Inr (Error (connect_error ''timed out''))
   \<and> status_code (connect_error ''timed out'') = 500
   \<and> get_nasa_apod (\<lambda>_. Responded 503 (PyDict [(''msg'', PyStr ''unavailable'')])) ''DEMO_KEY''
       None None None None False
     \<noteq> Inr (Error (connect_error ''timed out''))
   \<and> get_nasa_apod
       (\<lambda>_. Responded 500 (PyDict [(''msg'', PyStr ''Failed to connect or parse JSON: timed out'')]))
       ''DEMO_KEY'' None None None None False
     = Inr (Error (connect_error ''timed out''))"
  using
    internal_error_sentinel [where http_get = "\<lambda>_. GetRaised ''timed out''"
      and api_key = "''DEMO_KEY''" and apod_date = None and start_date = None
      and end_date = None and count = None and thumbs = False]
    internal_error_sentinel [where
      http_get = "\<lambda>_. Responded 503 (PyDict [(''msg'', PyStr ''unavailable'')])"
      and api_key = "''DEMO_KEY''" and apod_date = None and start_date = None
      and end_date = None and count = None and thumbs = False]
    internal_error_sentinel [where
      http_get = "\<lambda>_. Responded 500
        (PyDict [(''msg'', PyStr ''Failed to connect or parse JSON: timed out'')])"
      and api_key = "''DEMO_KEY''" and apod_date = None and start_date = None
      and end_date = None and count = None and thumbs = False]
  by simp

text \<open>
  C3 (as amended). When the status of the response is not 200, the body is a JSON object,
  and its \<open>msg\<close> field is truthy or its \<open>error\<close> field is absent or is a JSON object,
  the function returns an \<open>ErrorDetails\<close> with the status code of the response, whose
  message is: the \<open>msg\<close> field of the body if it is present and truthy; else
  \<open>Unknown error\<close> if the body has no \<open>error\<close> field; else (the \<open>error\<close> field being an
  object) the \<open>message\<close> field of that object, or \<open>Unknown error\<close> if it has none.
\<close>

theorem upstream_error_details:
  assumes "http_get (get_nasa_apod_params api_key apod_date start_date end_date count thumbs)
             = Responded code (PyDict body)"
    and "code \<noteq> HTTPStatus_OK"
    and "truthy (dict_get body ''msg'' PyNone)
         \<or> map_of body ''error'' = None
         \<or> (\<exists>err. map_of body ''error'' = Some (PyDict err))"
  shows "(\<exists>m. get_nasa_apod http_get api_key apod_date start_date end_date count thumbs
              = Inr (Error \<lparr> status_code = code, message = m \<rparr>))
       \<and> (truthy (dict_get body ''msg'' PyNone) \<longrightarrow>
            get_nasa_apod http_get api_key apod_date start_date end_date count thumbs
              = Inr (Error \<lparr> status_code = code, message = dict_get body ''msg'' PyNone \<rparr>))
       \<and> (\<not> truthy (dict_get body ''msg'' PyNone) \<and> map_of body ''error'' = None \<longrightarrow>
            get_nasa_apod http_get api_key apod_date start_date end_date count thumbs
              = Inr (Error \<lparr> status_code = code, message = PyStr ''Unknown error'' \<rparr>))
       \<and> (\<forall>err. \<not> truthy (dict_get body ''msg'' PyNone)
                \<and> map_of body ''error'' = Some (PyDict err) \<longrightarrow>
            get_nasa_apod http_get api_key apod_date start_date end_date count thumbs
              = Inr (Error \<lparr> status_code = code,
                     message = (case map_of err ''message'' of
                                  None \<Rightarrow> PyStr ''Unknown error'' | Some v \<Rightarrow> v) \<rparr>))"
proof -
  let ?result = "get_nasa_apod http_get api_key apod_date start_date end_date count thumbs"
  let ?msg = "dict_get body ''msg'' PyNone"
  have msg: "?result = Inr (Error \<lparr> status_code = code, message = ?msg \<rparr>)" if "truthy ?msg"
    using assms(1,2) that by (simp add: get_nasa_apod_def error_msg_def)
  have absent: "?result = Inr (Error \<lparr> status_code = code, message = PyStr ''Unknown error'' \<rparr>)"
    if "\<not> truthy ?msg" "map_of body ''error'' = None"
    using assms(1,2) that by (simp add: get_nasa_apod_def error_msg_def dict_get_def)
  have nested: "?result = Inr (Error \<lparr> status_code = code,
        message = (case map_of err ''message'' of
                     None \<Rightarrow> PyStr ''Unknown error'' | Some v \<Rightarrow> v) \<rparr>)"
    if "\<not> truthy ?msg" "map_of body ''error'' = Some (PyDict err)" for err
    using assms(1,2) that by (simp add: get_nasa_apod_def error_msg_def dict_get_def)
  have "\<exists>m. ?result = Inr (Error \<lparr> status_code = code, message = m \<rparr>)"
    using assms(3) msg absent nested by (cases "truthy ?msg") blast+
  with msg absent nested show ?thesis
    by blast
qed

theorem upstream_error_details_witness:
  "(429::int) \<noteq> HTTPStatus_OK
   \<and> get_nasa_apod
       (\<lambda>_. Responded 429 (PyDict [(''error'', PyDict [(''message'', PyStr ''rate limited'')])]))
       ''DEMO_KEY'' None None None None False
     = Inr (Error \<lparr> status_code = 429, message = PyStr ''rate limited'' \<rparr>)
   \<and> get_nasa_apod
       (\<lambda>_. Responded 400 (PyDict [(''code'', PyInt 400), (''msg'', PyStr ''bad date'')]))
       ''DEMO_KEY'' (Some ''1900-01-01'') None None None False
     = Inr (Error \<lparr> status_code = 400, message = PyStr ''bad date'' \<rparr>)
   \<and> get_nasa_apod (\<lambda>_. Responded 404 (PyDict [])) ''DEMO_KEY'' None None None None False
     = Inr (Error \<lparr> status_code = 404, message = PyStr ''Unknown error'' \<rparr>)"
  using
    upstream_error_details [where
      http_get = "\<lambda>_. Responded 429
        (PyDict [(''error'', PyDict [(''message'', PyStr ''rate limited'')])])"
      and code = 429 and body = "[(''error'', PyDict [(''message'', PyStr ''rate limited'')])]"
      and api_key = "''DEMO_KEY''" and apod_date = None and start_date = None
      and end_date = None and count = None and thumbs = False]
    upstream_error_details [where
      http_get = "\<lambda>_. Responded 400 (PyDict [(''code'', PyInt 400), (''msg'', PyStr ''bad date'')])"
      and code = 400 and body = "[(''code'', PyInt 400), (''msg'', PyStr ''bad date'')]"
      and api_key = "''DEMO_KEY''" and apod_date = "Some ''1900-01-01''" and start_date = None
      and end_date = None and count = None and thumbs = False]
    upstream_error_details [where http_get = "\<lambda>_. Responded 404 (PyDict [])"
      and code = 404 and body = "[]"
      and api_key = "''DEMO_KEY''" and apod_date = None and start_date = None
      and end_date = None and count = None and thumbs = False]
  by (simp add: HTTPStatus_OK_def dict_get_def)

text \<open>
  C3 as stated fails for a body whose \<open>msg\<close> field is present and empty: the message is
  not that field but the nested \<open>error.message\<close>.
\<close>

theorem upstream_error_empty_msg_counterexample:
  "get_nasa_apod
     (\<lambda>_. Responded 400
        (PyDict [(''msg'', PyStr ''''), (''error'', PyDict [(''message'', PyStr ''bad date'')])]))
     ''DEMO_KEY'' None None None None False
   = Inr (Error \<lparr> status_code = 400, message = PyStr ''bad date'' \<rparr>)
   \<and> get_nasa_apod
     (\<lambda>_. Responded 400
        (PyDict [(''msg'', PyStr ''''), (''error'', PyDict [(''message'', PyStr ''bad date'')])]))
     ''DEMO_KEY'' None None None None False
   \<noteq> Inr (Error \<lparr> status_code = 400, message = PyStr '''' \<rparr>)"
  by (simp add: get_nasa_apod_def error_msg_def dict_get_def HTTPStatus_OK_def)

text \<open>
  C2. The function does raise: on a 502 response whose body is
  \<^verbatim>\<open>{"error": "Bad Gateway"}\<close> the call \<^verbatim>\<open>.get("message", ...)\<close> on the string raises
  \<open>AttributeError\<close>, outside the \<^verbatim>\<open>try\<close> block, and so does \<^verbatim>\<open>item.get\<close> on a 200 response
  whose body is the array \<^verbatim>\<open>[1]\<close>.
\<close>

theorem get_nasa_apod_raises_AttributeError:
  "get_nasa_apod (\<lambda>_. Responded 502 (PyDict [(''error'', PyStr ''Bad Gateway'')])) ''DEMO_KEY''
     None None None None False
   = Inl AttributeError
   \<and> get_nasa_apod (\<lambda>_. Responded 200 (PyList [PyInt 1])) ''DEMO_KEY'' None None None None False
   = Inl AttributeError"
  by (simp add: get_nasa_apod_def error_msg_def dict_get_def raw_data_list_def HTTPStatus_OK_def)

section \<open>Entries\<close>

text \<open>
  C9. A source item that is an object is mapped to an entry whose \<open>apod_title\<close> is the
  item's \<open>title\<close> field, or \<open>Untitled\<close> if the item has none; whose \<open>explanation\<close> and
  \<open>date\<close> are the fields of these names, or the empty string; whose \<open>multimedia_link\<close> is
  the \<open>url\<close> field, or the empty string; and whose \<open>copyright_person_name\<close> is the
  \<open>copyright\<close> field, or \<open>None\<close>.
\<close>

theorem entry_field_defaults:
  "\<exists>entry. nasa_apod_of (PyDict item) = Inr entry
     \<and> apod_title entry
         = (case map_of item ''title'' of None \<Rightarrow> PyStr ''Untitled'' | Some v \<Rightarrow> v)
     \<and> explanation entry
         = (case map_of item ''explanation'' of None \<Rightarrow> PyStr '''' | Some v \<Rightarrow> v)
     \<and> date entry = (case map_of item ''date'' of None \<Rightarrow> PyStr '''' | Some v \<Rightarrow> v)
     \<and> multimedia_link entry = (case map_of item ''url'' of None \<Rightarrow> PyStr '''' | Some v \<Rightarrow> v)
     \<and> copyright_person_name entry
         = (case map_of item ''copyright'' of None \<Rightarrow> PyNone | Some v \<Rightarrow> v)"
  by (simp add: Let_def dict_get_def)

theorem entry_field_defaults_witness:
  "\<exists>entry. nasa_apod_of (PyDict [(''title'', PyStr ''X''), (''url'', PyStr ''http://u'')])
              = Inr entry
     \<and> apod_title entry = PyStr ''X''
     \<and> explanation entry = PyStr ''''
     \<and> date entry = PyStr ''''
     \<and> multimedia_link entry = PyStr ''http://u''
     \<and> copyright_person_name entry = PyNone"
  using entry_field_defaults [where item = "[(''title'', PyStr ''X''), (''url'', PyStr ''http://u'')]"]
  by simp

text \<open>
  C4. On every entry that the mapper produces, \<open>hd_multimedia_link\<close> is not \<open>None\<close> only
  if the \<open>media_type\<close> of the source item is \<open>image\<close> and the item has an \<open>hdurl\<close> field;
  \<open>video_thumbnail_url\<close> is not \<open>None\<close> only if the \<open>media_type\<close> is \<open>video\<close> and the item
  has a \<open>thumbnail_url\<close> field; and the two are never both not \<open>None\<close>.
\<close>

theorem media_links_exclusive:
  assumes "nasa_apod_of item = Inr entry"
  shows "(hd_multimedia_link entry \<noteq> PyNone \<longrightarrow>
            (\<exists>d h. item = PyDict d \<and> map_of d ''media_type'' = Some (PyStr ''image'')
                  \<and> map_of d ''hdurl'' = Some h))
       \<and> (video_thumbnail_url entry \<noteq> PyNone \<longrightarrow>
            (\<exists>d t. item = PyDict d \<and> map_of d ''media_type'' = Some (PyStr ''video'')
                  \<and> map_of d ''thumbnail_url'' = Some t))
       \<and> \<not> (hd_multimedia_link entry \<noteq> PyNone \<and> video_thumbnail_url entry \<noteq> PyNone)"
proof (cases item)
  case (PyDict d)
  let ?m = "dict_get d ''media_type'' PyNone"
  note links = nasa_apod_of_links [OF assms [unfolded PyDict]]
  have hd: "\<exists>h. map_of d ''media_type'' = Some (PyStr ''image'') \<and> map_of d ''hdurl'' = Some h"
    if "hd_multimedia_link entry \<noteq> PyNone"
  proof -
    from that links(1) have m: "?m = PyStr ''image''"
      and h: "dict_get d ''hdurl'' PyNone \<noteq> PyNone"
      by (simp_all split: if_splits)
    from dict_get_PyStr [OF m] dict_get_not_PyNone [OF h] show ?thesis by blast
  qed
  have vt: "\<exists>t. map_of d ''media_type'' = Some (PyStr ''video'')
              \<and> map_of d ''thumbnail_url'' = Some t"
    if "video_thumbnail_url entry \<noteq> PyNone"
  proof -
    from that links(2) have m: "?m = PyStr ''video''"
      and t: "dict_get d ''thumbnail_url'' PyNone \<noteq> PyNone"
      by (simp_all split: if_splits)
    from dict_get_PyStr [OF m] dict_get_not_PyNone [OF t] show ?thesis by blast
  qed
  have "\<not> (hd_multimedia_link entry \<noteq> PyNone \<and> video_thumbnail_url entry \<noteq> PyNone)"
  proof
    assume "hd_multimedia_link entry \<noteq> PyNone \<and> video_thumbnail_url entry \<noteq> PyNone"
    with hd vt have "map_of d ''media_type'' = Some (PyStr ''image'')"
      "map_of d ''media_type'' = Some (PyStr ''video'')"
      by blast+
    then show False by simp
  qed
  with hd vt PyDict show ?thesis by blast
qed (use assms in simp_all)

theorem media_links_exclusive_witness:
  "nasa_apod_of
     (PyDict [(''title'', PyStr ''X''), (''date'', PyStr ''2026-01-18''), (''url'', PyStr ''http://u''),
              (''media_type'', PyStr ''image''), (''hdurl'', PyStr ''http://h'')])
   = Inr \<lparr> apod_title = PyStr ''X'', explanation = PyStr '''', date = PyStr ''2026-01-18'',
           multimedia_link = PyStr ''http://u'', hd_multimedia_link = PyStr ''http://h'',
           video_thumbnail_url = PyNone, copyright_person_name = PyNone \<rparr>
   \<and> PyStr ''http://h'' \<noteq> PyNone
   \<and> map_of [(''title'', PyStr ''X''), (''date'', PyStr ''2026-01-18''), (''url'', PyStr ''http://u''),
             (''media_type'', PyStr ''image''), (''hdurl'', PyStr ''http://h'')] ''media_type''
     = Some (PyStr ''image'')
   \<and> nasa_apod_of
     (PyDict [(''title'', PyStr ''X''), (''date'', PyStr ''2026-01-18''), (''url'', PyStr ''http://u''),
              (''media_type'', PyStr ''video''), (''thumbnail_url'', PyStr ''http://t'')])
   = Inr \<lparr> apod_title = PyStr ''X'', explanation = PyStr '''', date = PyStr ''2026-01-18'',
           multimedia_link = PyStr ''http://u'', hd_multimedia_link = PyNone,
           video_thumbnail_url = PyStr ''http://t'', copyright_person_name = PyNone \<rparr>"
  using
    media_links_exclusive [where
      item = "PyDict [(''title'', PyStr ''X''), (''date'', PyStr ''2026-01-18''),
        (''url'', PyStr ''http://u''), (''media_type'', PyStr ''image''),
        (''hdurl'', PyStr ''http://h'')]"
      and entry = "\<lparr> apod_title = PyStr ''X'', explanation = PyStr '''',
        date = PyStr ''2026-01-18'', multimedia_link = PyStr ''http://u'',
        hd_multimedia_link = PyStr ''http://h'', video_thumbnail_url = PyNone,
        copyright_person_name = PyNone \<rparr>"]
    media_links_exclusive [where
      item = "PyDict [(''title'', PyStr ''X''), (''date'', PyStr ''2026-01-18''),
        (''url'', PyStr ''http://u''), (''media_type'', PyStr ''video''),
        (''thumbnail_url'', PyStr ''http://t'')]"
      and entry = "\<lparr> apod_title = PyStr ''X'', explanation = PyStr '''',
        date = PyStr ''2026-01-18'', multimedia_link = PyStr ''http://u'',
        hd_multimedia_link = PyNone, video_thumbnail_url = PyStr ''http://t'',
        copyright_person_name = PyNone \<rparr>"]
  by (simp add: Let_def dict_get_def)

section \<open>Batches\<close>

text \<open>
  C5. On a 200 response: if the body is an array of N objects, the function returns a
  batch of exactly N entries, the i-th entry being the mapping of the i-th object; if the
  body is a single object, it returns a batch of exactly one entry, the mapping of that
  object.
\<close>

theorem ok_body_normalised:
  assumes "http_get (get_nasa_apod_params api_key apod_date start_date end_date count thumbs)
             = Responded HTTPStatus_OK body"
  shows "(\<forall>ds. body = PyList (map PyDict ds) \<longrightarrow>
            (\<exists>entries.
               get_nasa_apod http_get api_key apod_date start_date end_date count thumbs
                 = Inr (Apods \<lparr> nasa_apods = entries \<rparr>)
               \<and> length entries = length ds
               \<and> (\<forall>i < length ds. nasa_apod_of (PyDict (ds ! i)) = Inr (entries ! i))))
       \<and> (\<forall>d. body = PyDict d \<longrightarrow>
            (\<exists>entry.
               nasa_apod_of (PyDict d) = Inr entry
               \<and> get_nasa_apod http_get api_key apod_date start_date end_date count thumbs
                   = Inr (Apods \<lparr> nasa_apods = [entry] \<rparr>)))"
proof (intro conjI allI impI)
  fix ds
  assume body: "body = PyList (map PyDict ds)"
  from nasa_apods_loop_map_PyDict [of ds "[]"] obtain new where
    new: "nasa_apods_loop (map PyDict ds) [] = Inr new" "length new = length ds"
      "\<forall>i < length ds. nasa_apod_of (PyDict (ds ! i)) = Inr (new ! i)"
    by auto
  have "get_nasa_apod http_get api_key apod_date start_date end_date count thumbs
          = Inr (Apods \<lparr> nasa_apods = new \<rparr>)"
    using assms body new(1) by (simp add: get_nasa_apod_def raw_data_list_def)
  with new(2,3) show "\<exists>entries.
      get_nasa_apod http_get api_key apod_date start_date end_date count thumbs
        = Inr (Apods \<lparr> nasa_apods = entries \<rparr>)
      \<and> length entries = length ds
      \<and> (\<forall>i < length ds. nasa_apod_of (PyDict (ds ! i)) = Inr (entries ! i))"
    by blast
next
  fix d
  assume body: "body = PyDict d"
  obtain entry where entry: "nasa_apod_of (PyDict d) = Inr entry"
    by (simp add: Let_def)
  have "get_nasa_apod http_get api_key apod_date start_date end_date count thumbs
          = Inr (Apods \<lparr> nasa_apods = [entry] \<rparr>)"
    using assms body entry
    by (simp add: get_nasa_apod_def raw_data_list_def del: nasa_apod_of.simps)
  with entry show "\<exists>entry. nasa_apod_of (PyDict d) = Inr entry
      \<and> get_nasa_apod http_get api_key apod_date start_date end_date count thumbs
          = Inr (Apods \<lparr> nasa_apods = [entry] \<rparr>)"
    by blast
qed

theorem ok_body_normalised_witness:
  "(\<exists>entries.
      get_nasa_apod
        (\<lambda>_. Responded 200 (PyList [PyDict [(''title'', PyStr ''A'')], PyDict [(''title'', PyStr ''B'')]]))
        ''DEMO_KEY'' None None None (Some 2) False
      = Inr (Apods \<lparr> nasa_apods = entries \<rparr>)
      \<and> length entries = 2
      \<and> nasa_apod_of (PyDict [(''title'', PyStr ''A'')]) = Inr (entries ! 0)
      \<and> nasa_apod_of (PyDict [(''title'', PyStr ''B'')]) = Inr (entries ! 1))
   \<and> (\<exists>entry.
      nasa_apod_of (PyDict [(''title'', PyStr ''A'')]) = Inr entry
      \<and> get_nasa_apod (\<lambda>_. Responded 200 (PyDict [(''title'', PyStr ''A'')]))
        ''DEMO_KEY'' None None None None False
      = Inr (Apods \<lparr> nasa_apods = [entry] \<rparr>))"
proof -
  let ?A = "[(''title'', PyStr ''A'')]" and ?B = "[(''title'', PyStr ''B'')]"
  have "(\<lambda>_. Responded 200 (PyList (map PyDict [?A, ?B])))
          (get_nasa_apod_params ''DEMO_KEY'' None None None (Some 2) False)
        = Responded HTTPStatus_OK (PyList (map PyDict [?A, ?B]))"
    by (simp add: HTTPStatus_OK_def)
  from ok_body_normalised [OF this] obtain entries where
    res: "get_nasa_apod (\<lambda>_. Responded 200 (PyList (map PyDict [?A, ?B])))
       ''DEMO_KEY'' None None None (Some 2) False = Inr (Apods \<lparr> nasa_apods = entries \<rparr>)"
    and len: "length entries = length [?A, ?B]"
    and nth: "\<forall>i < length [?A, ?B]. nasa_apod_of (PyDict ([?A, ?B] ! i)) = Inr (entries ! i)"
    by blast
  from nth [rule_format, of 0] have e0: "nasa_apod_of (PyDict ?A) = Inr (entries ! 0)"
    by (simp del: nasa_apod_of.simps)
  from nth [rule_format, of 1] have e1: "nasa_apod_of (PyDict ?B) = Inr (entries ! 1)"
    by (simp del: nasa_apod_of.simps)
  from res len e0 e1 have list: "\<exists>entries.
      get_nasa_apod (\<lambda>_. Responded 200 (PyList [PyDict ?A, PyDict ?B]))
        ''DEMO_KEY'' None None None (Some 2) False
      = Inr (Apods \<lparr> nasa_apods = entries \<rparr>)
      \<and> length entries = 2
      \<and> nasa_apod_of (PyDict ?A) = Inr (entries ! 0)
      \<and> nasa_apod_of (PyDict ?B) = Inr (entries ! 1)"
    by (intro exI [of _ entries]) (simp del: nasa_apod_of.simps)
  have "(\<lambda>_. Responded 200 (PyDict ?A))
          (get_nasa_apod_params ''DEMO_KEY'' None None None None False)
        = Responded HTTPStatus_OK (PyDict ?A)"
    by (simp add: HTTPStatus_OK_def)
  from ok_body_normalised [OF this] list show ?thesis
    by blast
qed

end
